theory Spec2Isabelle
  imports Complex_Main
begin

section \<open>JavaScript values\<close>

text \<open>
  The values that reach the session scheme from its callers, the session store and the
  cookies. A number is a real or \<open>NaN\<close> (the scheme never computes with numbers: it
  compares them with \<open>0\<close> and \<open>1\<close> and tests their truthiness; \<open>-0\<close> behaves as
  \<open>0\<close> in both, and an infinity as any other number that is neither). An object is a
  reference and is always truthy.
\<close>

datatype jsval =
    JUndefined
  | JNull
  | JBool bool
  | JNum real
  | JNaN
  | JStr string
  | JObj nat

text \<open>The conversion to boolean that \<open>if (v)\<close>, \<open>!v\<close> and \<open>v ? a : b\<close> apply.\<close>

fun truthy :: "jsval \<Rightarrow> bool" where
  "truthy JUndefined = False"
| "truthy JNull = False"
| "truthy (JBool b) = b"
| "truthy (JNum x) = (x \<noteq> 0)"
| "truthy JNaN = False"
| "truthy (JStr s) = (s \<noteq> [])"
| "truthy (JObj r) = True"

text \<open>Reading a key of a store: an absent key reads as \<open>undefined\<close>.\<close>

definition store_get :: "(string \<rightharpoonup> jsval) \<Rightarrow> string \<Rightarrow> jsval" where
  "store_get m k = (case m k of None \<Rightarrow> JUndefined | Some v \<Rightarrow> v)"

section \<open>The scheme: configuration, serializer and libraries\<close>

text \<open>
  What a \<open>SessionScheme\<close> is given and never changes. A user is an object of the
  serializer, of type \<open>'u\<close>; the scheme only looks users up, has their password
  verified and reads their primary key value.
  \<^item> \<open>config_uid\<close>, \<open>config_sessionKey\<close>, \<open>config_rememberMeToken\<close>: the fields
    \<open>uid\<close>, \<open>sessionKey\<close> and \<open>rememberMeToken\<close> of \<open>this._config\<close>
    (\<open>None\<close> for a field that is not configured);
  \<^item> \<open>findByUid\<close>, \<open>validateCredentails\<close>, \<open>findById\<close>, \<open>findByRememberToken\<close>,
    \<open>primaryKey\<close>: \<open>this._serializerInstance\<close>, a lookup that finds nobody
    answering \<open>None\<close> (\<open>null\<close>);
  \<^item> \<open>primaryKeyOf\<close>: the value a user object holds under the primary key;
  \<^item> \<open>ms\<close>: the library \<open>ms\<close> on strings (a number, or \<open>undefined\<close> for a string it
    cannot parse);
  \<^item> \<open>uuid_source\<close>: the strings \<open>uuid.v4()\<close> returns, by the number of the call;
  \<^item> \<open>save_settles_at_once\<close>: whether the promise \<open>saveRememberToken\<close> returns is
    already settled when it is returned (a serializer that answers at once) or settles
    later (one that waits for its store). It decides what runs first after \<open>check\<close>
    has started a login without awaiting it: the rest of that login, or the caller of
    \<open>check\<close>.
\<close>

record 'u scheme =
  config_uid :: string
  config_sessionKey :: "string option"
  config_rememberMeToken :: "string option"
  findByUid :: "string \<Rightarrow> 'u option"
  validateCredentails :: "'u \<Rightarrow> string \<Rightarrow> bool"
  findById :: "jsval \<Rightarrow> 'u option"
  findByRememberToken :: "jsval \<Rightarrow> 'u option"
  primaryKey :: string
  primaryKeyOf :: "'u \<Rightarrow> jsval"
  ms :: "string \<Rightarrow> jsval"
  uuid_source :: "nat \<Rightarrow> string"
  save_settles_at_once :: bool

section \<open>The guard's state\<close>

text \<open>What \<open>response.cookie\<close> and \<open>response.clearCookie\<close> leave on the response for a key.\<close>

datatype cookie_op = SetCookie jsval jsval | ClearCookie

text \<open>
  The mutable state one scheme instance works on during a request:
  \<^item> \<open>user\<close>: \<open>this.user\<close>, \<open>None\<close> for \<open>null\<close>;
  \<^item> \<open>rememberTokenDuration\<close>: the value held by \<open>this._rememberTokenDuration\<close>, a
    \<open>Resetable\<close> whose default is \<open>0\<close>;
  \<^item> \<open>session\<close>: the store behind \<open>this._ctx.session\<close>;
  \<^item> \<open>request_cookie\<close>: the cookies \<open>this._ctx.request.cookie\<close> reads;
  \<^item> \<open>response_cookie\<close>: what the scheme has asked \<open>this._ctx.response\<close> to do, by key;
  \<^item> \<open>saved_tokens\<close>: the calls of \<open>saveRememberToken\<close> made so far, latest first;
  \<^item> \<open>uuid_calls\<close>: the number of calls of \<open>uuid.v4()\<close> made so far;
  \<^item> \<open>detached\<close>: the logins started by \<open>check\<close> that are still suspended at their
    \<open>await\<close> (user, remember token, duration) when the caller of \<open>check\<close> goes on;
    \<open>resume_detached\<close> below is what the event loop runs for the first of them once
    its \<open>saveRememberToken\<close> has settled.
\<close>

record 'u guard =
  user :: "'u option"
  rememberTokenDuration :: jsval
  session :: "string \<rightharpoonup> jsval"
  request_cookie :: "string \<rightharpoonup> jsval"
  response_cookie :: "string \<rightharpoonup> cookie_op"
  saved_tokens :: "('u \<times> jsval) list"
  uuid_calls :: nat
  detached :: "('u \<times> jsval \<times> jsval) list"

text \<open>The exceptions of \<open>../Exceptions\<close> that the scheme throws, and the error the
  library \<open>ms\<close> throws for a string that is empty.\<close>

datatype error =
    UserNotFoundException string
  | PasswordMisMatchException string
  | AuthenticatedInstance
  | MissingUid
  | MsInvalidValue

text \<open>The constructor: a guard with no user and the duration holder at its default.\<close>

definition new_guard :: "(string \<rightharpoonup> jsval) \<Rightarrow> (string \<rightharpoonup> jsval) \<Rightarrow> 'u guard" where
  "new_guard sess cookies =
     \<lparr>user = None, rememberTokenDuration = JNum 0,
      session = sess, request_cookie = cookies, response_cookie = Map.empty,
      saved_tokens = [], uuid_calls = 0, detached = []\<rparr>"

section \<open>Accessors\<close>

text \<open>\<open>this._config.sessionKey || 'adonis-auth'\<close>: an empty string is falsy too.\<close>

definition sessionKey :: "'u scheme \<Rightarrow> string" where
  "sessionKey c =
     (case config_sessionKey c of
        Some k \<Rightarrow> if k \<noteq> [] then k else ''adonis-auth''
      | None \<Rightarrow> ''adonis-auth'')"

definition remeberTokenKey :: "'u scheme \<Rightarrow> string" where
  "remeberTokenKey c =
     (case config_rememberMeToken c of
        Some k \<Rightarrow> if k \<noteq> [] then k else ''adonis-remember-token''
      | None \<Rightarrow> ''adonis-remember-token'')"

text \<open>
  Modelled from the spec: the getter \<open>primaryKeyValue\<close> of the base scheme
  (\<open>./Base\<close> is not among the sources): the primary-key value of the guard's current
  user. \<open>login\<close> reads it only after it has assigned \<open>this.user\<close>; on a guard with no
  user there is no object to read the key from, and the getter has no value to give.
\<close>

definition primaryKeyValue :: "'u scheme \<Rightarrow> 'u guard \<Rightarrow> jsval" where
  "primaryKeyValue c s = (case user s of None \<Rightarrow> JUndefined | Some u \<Rightarrow> primaryKeyOf c u)"

text \<open>
  The typings declare a property \<open>viaRemember\<close> for a session guard. \<open>SessionScheme\<close>
  defines none and no method of it assigns one, so reading it from a guard gives
  \<open>undefined\<close>, whatever the guard has been through.
\<close>

definition viaRemember :: "'u guard \<Rightarrow> jsval" where
  "viaRemember s = JUndefined"

section \<open>The session and the remember cookie\<close>

definition setSession :: "'u scheme \<Rightarrow> jsval \<Rightarrow> jsval \<Rightarrow> jsval \<Rightarrow> 'u guard \<Rightarrow> 'u guard" where
  "setSession c pkv rememberToken duration s =
     (let s1 = s\<lparr>session := (session s)(sessionKey c \<mapsto> pkv)\<rparr>
      in if truthy rememberToken \<and> truthy duration
         then s1\<lparr>response_cookie :=
                  (response_cookie s1)(remeberTokenKey c \<mapsto> SetCookie rememberToken duration)\<rparr>
         else s1)"

definition removeSession :: "'u scheme \<Rightarrow> 'u guard \<Rightarrow> 'u guard" where
  "removeSession c s =
     s\<lparr>session := (session s)(sessionKey c := None),
       response_cookie := (response_cookie s)(remeberTokenKey c \<mapsto> ClearCookie)\<rparr>"

section \<open>remember\<close>

text \<open>\<open>Resetable.set\<close> and \<open>Resetable.pull\<close> on \<open>this._rememberTokenDuration\<close>.\<close>

definition duration_set :: "jsval \<Rightarrow> 'u guard \<Rightarrow> 'u guard" where
  "duration_set v s = s\<lparr>rememberTokenDuration := v\<rparr>"

definition duration_pull :: "'u guard \<Rightarrow> jsval \<times> 'u guard" where
  "duration_pull s = (rememberTokenDuration s, s\<lparr>rememberTokenDuration := JNum 0\<rparr>)"

text \<open>
  A call \<open>ms(str)\<close> on a string: the library throws when the string is empty, and
  otherwise answers what it parsed. \<open>set_ms\<close> is
  \<open>this._rememberTokenDuration.set(ms(str))\<close>: when \<open>ms\<close> throws, \<open>set\<close> is not reached.
\<close>

definition ms_call :: "'u scheme \<Rightarrow> string \<Rightarrow> error + jsval" where
  "ms_call c str = (if str = [] then Inl MsInvalidValue else Inr (ms c str))"

definition set_ms :: "'u scheme \<Rightarrow> string \<Rightarrow> 'u guard \<Rightarrow> (error + unit) \<times> 'u guard" where
  "set_ms c str s =
     (case ms_call c str of
        Inl e \<Rightarrow> (Inl e, s)
      | Inr v \<Rightarrow> (Inr (), duration_set v s))"

text \<open>\<open>remember\<close> returns \<open>this\<close>: the guard it leaves, here with \<open>Inr ()\<close>.\<close>

definition remember :: "'u scheme \<Rightarrow> jsval \<Rightarrow> 'u guard \<Rightarrow> (error + unit) \<times> 'u guard" where
  "remember c duration s =
     (if duration = JBool True \<or> duration = JNum 1 then set_ms c ''5y'' s
      else case duration of
             JStr str \<Rightarrow> set_ms c str s
           | _ \<Rightarrow> if duration \<noteq> JNum 0 \<and> duration \<noteq> JBool False
                  then (Inr (), duration_set duration s)
                  else (Inr (), s))"

section \<open>validate\<close>

text \<open>What \<open>validate\<close> returns: \<open>returnUser ? user : !!user\<close>.\<close>

datatype 'u validated = ReturnedUser 'u | ReturnedBool bool

definition validate ::
  "'u scheme \<Rightarrow> string \<Rightarrow> string \<Rightarrow> jsval \<Rightarrow> 'u guard \<Rightarrow> (error + 'u validated) \<times> 'u guard" where
  "validate c uid password returnUser s =
     (case findByUid c uid of
        None \<Rightarrow>
          (Inl (UserNotFoundException
                  (''Cannot find user with '' @ config_uid c @ '' as '' @ uid)), s)
      | Some usr \<Rightarrow>
          if \<not> validateCredentails c usr password
          then (Inl (PasswordMisMatchException ''Cannot verify user password''), s)
          else (Inr (if truthy returnUser then ReturnedUser usr else ReturnedBool True), s))"

section \<open>login\<close>

text \<open>
  \<open>login\<close> is an \<open>async\<close> function with one \<open>await\<close>, at \<open>saveRememberToken\<close>, reached
  only when a remember token was generated. \<open>login_begin\<close> is the function up to that
  point: it either settles (a thrown exception rejects the promise, a \<open>return\<close> fulfils
  it), or it has called \<open>saveRememberToken\<close> and is suspended. \<open>login_resume\<close> is the
  rest. A caller that awaits \<open>login\<close> sees both, one after the other.
\<close>

datatype 'u login_state = Settled "error + 'u" | Awaiting 'u jsval jsval

definition uuid_v4 :: "'u scheme \<Rightarrow> 'u guard \<Rightarrow> jsval \<times> 'u guard" where
  "uuid_v4 c s = (JStr (uuid_source c (uuid_calls s)), s\<lparr>uuid_calls := Suc (uuid_calls s)\<rparr>)"

definition saveRememberToken :: "'u \<Rightarrow> jsval \<Rightarrow> 'u guard \<Rightarrow> 'u guard" where
  "saveRememberToken usr tok s = s\<lparr>saved_tokens := (usr, tok) # saved_tokens s\<rparr>"

definition login_begin :: "'u scheme \<Rightarrow> 'u \<Rightarrow> 'u guard \<Rightarrow> 'u login_state \<times> 'u guard" where
  "login_begin c usr s =
     (if user s \<noteq> None then (Settled (Inl AuthenticatedInstance), s)
      else
        let s1 = s\<lparr>user := Some usr\<rparr> in
        if \<not> truthy (primaryKeyValue c s1) then (Settled (Inl MissingUid), s1)
        else
          let (duration, s2) = duration_pull s1;
              (rememberToken, s3) = (if truthy duration then uuid_v4 c s2 else (JNull, s2))
          in if truthy rememberToken
             then (Awaiting usr rememberToken duration, saveRememberToken usr rememberToken s3)
             else (Settled (Inr usr),
                   setSession c (primaryKeyValue c s3) rememberToken duration s3))"

definition login_resume ::
  "'u scheme \<Rightarrow> 'u \<Rightarrow> jsval \<Rightarrow> jsval \<Rightarrow> 'u guard \<Rightarrow> (error + 'u) \<times> 'u guard" where
  "login_resume c usr rememberToken duration s =
     (Inr usr, setSession c (primaryKeyValue c s) rememberToken duration s)"

definition login :: "'u scheme \<Rightarrow> 'u \<Rightarrow> 'u guard \<Rightarrow> (error + 'u) \<times> 'u guard" where
  "login c usr s =
     (case login_begin c usr s of
        (Settled r, s') \<Rightarrow> (r, s')
      | (Awaiting u tok d, s') \<Rightarrow> login_resume c u tok d s')"

section \<open>attempt, logout, check, getUser\<close>

text \<open>
  \<open>attempt\<close> hands what \<open>validate\<close> returned to \<open>login\<close>. Called with
  \<open>returnUser = true\<close>, \<open>validate\<close> returns the user object and never a boolean
  (\<open>validate_true_returns_user\<close> below), so the last case is not reached: a boolean
  holds no primary key.
\<close>

definition attempt ::
  "'u scheme \<Rightarrow> string \<Rightarrow> string \<Rightarrow> 'u guard \<Rightarrow> (error + 'u) \<times> 'u guard" where
  "attempt c uid password s =
     (case validate c uid password (JBool True) s of
        (Inl e, s1) \<Rightarrow> (Inl e, s1)
      | (Inr (ReturnedUser usr), s1) \<Rightarrow> login c usr s1
      | (Inr (ReturnedBool b), s1) \<Rightarrow> (Inl MissingUid, s1))"

definition logout :: "'u scheme \<Rightarrow> 'u guard \<Rightarrow> (error + unit) \<times> 'u guard" where
  "logout c s = (Inr (), removeSession c (s\<lparr>user := None\<rparr>))"

text \<open>
  \<open>check\<close> calls \<open>this.login(user)\<close> and drops the promise: neither the user it would
  return nor the exception it would raise reaches \<open>check\<close>. \<open>login_detached\<close> is the
  guard as the caller of \<open>check\<close> finds it when it goes on.
  \<^item> A login that settles without suspending has done all it does.
  \<^item> A login suspended at \<open>await saveRememberToken(...)\<close> whose promise is settled
    already was queued to go on before \<open>check\<close> returned, so it runs to its end first.
  \<^item> One whose promise settles later is still suspended: it is kept in \<open>detached\<close>.
\<close>

definition login_detached :: "'u scheme \<Rightarrow> 'u \<Rightarrow> 'u guard \<Rightarrow> 'u guard" where
  "login_detached c usr s =
     (case login_begin c usr s of
        (Settled r, s') \<Rightarrow> s'
      | (Awaiting u tok d, s') \<Rightarrow>
          if save_settles_at_once c then snd (login_resume c u tok d s')
          else s'\<lparr>detached := detached s' @ [(u, tok, d)]\<rparr>)"

text \<open>
  The first suspended login going on, once its \<open>saveRememberToken\<close> has settled. If the
  guard has lost its user meanwhile (a \<open>logout\<close>), there is no primary key value to
  read and the login ends there, its exception reaching nobody.
\<close>

definition resume_detached :: "'u scheme \<Rightarrow> 'u guard \<Rightarrow> 'u guard" where
  "resume_detached c s =
     (case detached s of
        [] \<Rightarrow> s
      | (u, tok, d) # rest \<Rightarrow>
          (let s1 = s\<lparr>detached := rest\<rparr>
           in if user s1 = None then s1 else snd (login_resume c u tok d s1)))"

definition check :: "'u scheme \<Rightarrow> 'u guard \<Rightarrow> (error + bool) \<times> 'u guard" where
  "check c s =
     (if user s \<noteq> None then (Inr True, s)
      else
        let sessionValue = store_get (session s) (sessionKey c);
            rememberMeToken = store_get (request_cookie s) (remeberTokenKey c)
        in if truthy sessionValue
           then let s1 = s\<lparr>user := findById c sessionValue\<rparr>
                in (Inr (user s1 \<noteq> None), s1)
           else if truthy rememberMeToken
           then (case findByRememberToken c rememberMeToken of
                   None \<Rightarrow> (Inr False, s)
                 | Some usr \<Rightarrow> (Inr True, login_detached c usr s))
           else (Inr False, s))"

definition getUser :: "'u scheme \<Rightarrow> 'u guard \<Rightarrow> (error + 'u option) \<times> 'u guard" where
  "getUser c s =
     (case check c s of
        (Inl e, s1) \<Rightarrow> (Inl e, s1)
      | (Inr b, s1) \<Rightarrow> (Inr (user s1), s1))"

section \<open>A concrete scheme\<close>

text \<open>
  A serializer over two accounts, used to evaluate the scheme on concrete requests:
  \<open>alice\<close>, with primary key \<open>1\<close>, and \<open>ghost\<close>, a row whose primary key is \<open>null\<close>.
  It saves a remember token in a store, so its \<open>saveRememberToken\<close> settles later.
\<close>

datatype account =
  Account (account_id: jsval) (account_email: string) (account_password: string)

definition alice :: account where
  "alice = Account (JNum 1) ''alice'' ''correct-pw''"

definition ghost :: account where
  "ghost = Account JNull ''ghost'' ''boo''"

definition five_years :: real where
  "five_years = 157788000000"

definition demo :: "account scheme" where
  "demo =
     \<lparr>config_uid = ''email'', config_sessionKey = None, config_rememberMeToken = None,
      findByUid = (\<lambda>uid. if uid = ''alice'' then Some alice
                          else if uid = ''ghost'' then Some ghost else None),
      validateCredentails = (\<lambda>usr password. account_password usr = password),
      findById = (\<lambda>v. if v = JNum 1 then Some alice else None),
      findByRememberToken = (\<lambda>tok. if tok = JStr ''tok-alice'' then Some alice
                                     else if tok = JStr ''tok-ghost'' then Some ghost
                                     else None),
      primaryKey = ''id'',
      primaryKeyOf = account_id,
      ms = (\<lambda>str. if str = ''5y'' then JNum five_years
                    else if str = ''2 days'' then JNum 172800000 else JUndefined),
      uuid_source = (\<lambda>n. ''110ec58a-a0f2-4ac4-8393-c866d813b8d1''),
      save_settles_at_once = False\<rparr>"

text \<open>The same scheme over a serializer that saves a remember token at once.\<close>

definition demo_at_once :: "account scheme" where
  "demo_at_once = demo\<lparr>save_settles_at_once := True\<rparr>"

text \<open>A request that carries nothing, and the guard made for it.\<close>

definition fresh :: "account guard" where
  "fresh = new_guard Map.empty Map.empty"

text \<open>Requests that carry a remember cookie only, or a session value only.\<close>

definition token_request :: "string \<Rightarrow> account guard" where
  "token_request tok = new_guard Map.empty [''adonis-remember-token'' \<mapsto> JStr tok]"

definition session_request :: "jsval \<Rightarrow> account guard" where
  "session_request v = new_guard [''adonis-auth'' \<mapsto> v] Map.empty"

section \<open>Auxiliary facts\<close>

lemmas demo_simps =
  demo_def alice_def ghost_def fresh_def new_guard_def token_request_def session_request_def
  five_years_def sessionKey_def remeberTokenKey_def store_get_def primaryKeyValue_def
  demo_at_once_def

lemmas op_simps =
  login_def login_begin_def login_resume_def login_detached_def check_def logout_def
  getUser_def attempt_def validate_def remember_def duration_set_def duration_pull_def
  setSession_def removeSession_def uuid_v4_def saveRememberToken_def ms_call_def set_ms_def
  resume_detached_def

lemma validate_true_returns_user:
  "fst (validate c uid pw (JBool True) s) \<noteq> Inr (ReturnedBool b)"
  by (simp add: validate_def split: option.splits)

text \<open>\<open>login\<close> on a guard with no user, for a user that has a primary key value, when no
  duration is pending: it settles without suspending.\<close>

lemma login_begin_no_duration:
  assumes "user s = None" and "truthy (primaryKeyOf c u)" and "\<not> truthy (rememberTokenDuration s)"
  shows "login_begin c u s =
     (Settled (Inr u),
      s\<lparr>user := Some u, rememberTokenDuration := JNum 0,
        session := (session s)(sessionKey c \<mapsto> primaryKeyOf c u)\<rparr>)"
  using assms
  by (simp add: login_begin_def primaryKeyValue_def duration_pull_def setSession_def)

lemma login_no_duration:
  assumes "user s = None" and "truthy (primaryKeyOf c u)" and "\<not> truthy (rememberTokenDuration s)"
  shows "login c u s =
     (Inr u,
      s\<lparr>user := Some u, rememberTokenDuration := JNum 0,
        session := (session s)(sessionKey c \<mapsto> primaryKeyOf c u)\<rparr>)"
  using login_begin_no_duration [OF assms] by (simp add: login_def)

lemma login_begin_missing:
  assumes "user s = None" and "\<not> truthy (primaryKeyOf c u)"
  shows "login_begin c u s = (Settled (Inl MissingUid), s\<lparr>user := Some u\<rparr>)"
  using assms by (simp add: login_begin_def primaryKeyValue_def)

lemma login_success_cases:
  assumes "fst (login c u s) = Inr r"
  shows "user s = None \<and> truthy (primaryKeyOf c u) \<and> r = u"
  using assms
  by (auto simp add: login_def login_begin_def login_resume_def primaryKeyValue_def
      duration_pull_def uuid_v4_def Let_def split: if_splits prod.splits)

lemma login_resets_duration:
  assumes "fst (login c u s) = Inr r"
  shows "rememberTokenDuration (snd (login c u s)) = JNum 0"
  using assms
  by (auto simp add: login_def login_begin_def login_resume_def primaryKeyValue_def
      duration_pull_def uuid_v4_def setSession_def saveRememberToken_def Let_def
      split: if_splits prod.splits)

lemma login_without_duration_mints_nothing:
  assumes "\<not> truthy (rememberTokenDuration s)"
  shows "saved_tokens (snd (login c u s)) = saved_tokens s \<and>
         uuid_calls (snd (login c u s)) = uuid_calls s \<and>
         response_cookie (snd (login c u s)) = response_cookie s"
  using assms
  by (simp add: login_def login_begin_def primaryKeyValue_def
      duration_pull_def setSession_def Let_def)

lemma logout_keeps_duration:
  "rememberTokenDuration (snd (logout c s)) = rememberTokenDuration s"
  by (simp add: logout_def removeSession_def)

lemma login_detached_settled:
  "login_begin c u s = (Settled r, s') \<Longrightarrow> login_detached c u s = s'"
  by (simp add: login_detached_def)

section \<open>login on a guard that has a user\<close>

text \<open>
  C1. On every guard whose user is already set, \<open>login\<close> of any user raises the
  exception \<open>authenticatedInstance\<close> and returns the guard as it was: the user of the
  first login, the session, the cookies and the pending duration are all untouched.
\<close>

theorem login_twice_rejected:
  "user s = Some u1 \<Longrightarrow> login c u2 s = (Inl AuthenticatedInstance, s)"
  by (simp add: login_def login_begin_def)

text \<open>After \<open>alice\<close> has logged in, a login of \<open>ghost\<close> is refused and \<open>alice\<close> stays.\<close>

theorem login_twice_rejected_witness:
  "user (snd (login demo alice fresh)) = Some alice \<and>
   login demo ghost (snd (login demo alice fresh))
     = (Inl AuthenticatedInstance, snd (login demo alice fresh))"
  using login_twice_rejected [of "snd (login demo alice fresh)" alice demo ghost]
  by (simp add: login_def login_begin_def fresh_def new_guard_def demo_def alice_def
      primaryKeyValue_def duration_pull_def setSession_def)

section \<open>login of a user without a primary key value\<close>

text \<open>
  C2, as the code has it. \<open>login\<close> assigns \<open>this.user\<close> first and reads the primary key
  value of that user afterwards. On a guard with no user, for every user whose primary
  key value is \<open>null\<close> or absent, \<open>login\<close> raises \<open>missingUid\<close>, and the guard it leaves
  holds that user; nothing else of the state has changed.
\<close>

theorem login_missing_uid_after_assignment:
  assumes "user s = None" and "primaryKeyOf c u = JNull \<or> primaryKeyOf c u = JUndefined"
  shows "login c u s = (Inl MissingUid, s\<lparr>user := Some u\<rparr>)"
proof -
  from assms(2) have "\<not> truthy (primaryKeyOf c u)" by auto
  with assms(1) show ?thesis by (simp add: login_def login_begin_missing)
qed

theorem login_missing_uid_after_assignment_witness:
  "user fresh = None \<and> primaryKeyOf demo ghost = JNull \<and>
   login demo ghost fresh = (Inl MissingUid, fresh\<lparr>user := Some ghost\<rparr>)"
proof -
  have a: "user fresh = None" by (simp add: fresh_def new_guard_def)
  have b: "primaryKeyOf demo ghost = JNull" by (simp add: demo_def ghost_def)
  from login_missing_uid_after_assignment [OF a disjI1 [OF b]] a b show ?thesis by simp
qed

text \<open>
  The user does not remain unset: on the fresh guard, the failed login of \<open>ghost\<close>
  leaves \<open>ghost\<close> as the guard's user.
\<close>

theorem login_missing_uid_counterexample:
  "user fresh = None \<and> primaryKeyOf demo ghost = JNull \<and>
   fst (login demo ghost fresh) = Inl MissingUid \<and>
   user (snd (login demo ghost fresh)) = Some ghost"
  by (simp add: op_simps demo_simps)

section \<open>The pending duration is used once\<close>

text \<open>
  C3. After every \<open>login\<close> that succeeds, with or without a remember token, the
  pending duration is back at the holder's default \<open>0\<close>. A second \<open>login\<close> with no call
  of \<open>remember\<close> in between, made at once (where it is refused) or after a \<open>logout\<close>,
  mints nothing: no call of \<open>uuid.v4()\<close>, no call of \<open>saveRememberToken\<close>, and no
  remember cookie set on the response.
\<close>

theorem remember_duration_consumed_once:
  assumes "fst (login c u s) = Inr r"
  shows "rememberTokenDuration (snd (login c u s)) = JNum 0 \<and>
         saved_tokens (snd (login c u2 (snd (login c u s)))) = saved_tokens (snd (login c u s)) \<and>
         uuid_calls (snd (login c u2 (snd (login c u s)))) = uuid_calls (snd (login c u s)) \<and>
         response_cookie (snd (login c u2 (snd (login c u s))))
           = response_cookie (snd (login c u s)) \<and>
         saved_tokens (snd (login c u2 (snd (logout c (snd (login c u s))))))
           = saved_tokens (snd (login c u s)) \<and>
         uuid_calls (snd (login c u2 (snd (logout c (snd (login c u s))))))
           = uuid_calls (snd (login c u s)) \<and>
         response_cookie (snd (login c u2 (snd (logout c (snd (login c u s))))))
           (remeberTokenKey c) = Some ClearCookie"
proof -
  let ?s1 = "snd (login c u s)"
  let ?s2 = "snd (logout c ?s1)"
  have d1: "rememberTokenDuration ?s1 = JNum 0"
    using assms by (rule login_resets_duration)
  then have n1: "\<not> truthy (rememberTokenDuration ?s1)" by simp
  have n2: "\<not> truthy (rememberTokenDuration ?s2)"
    using d1 by (simp add: logout_keeps_duration)
  have l2: "saved_tokens ?s2 = saved_tokens ?s1 \<and> uuid_calls ?s2 = uuid_calls ?s1 \<and>
            response_cookie ?s2 (remeberTokenKey c) = Some ClearCookie"
    by (simp add: logout_def removeSession_def)
  from d1 login_without_duration_mints_nothing [OF n1, of c u2]
    login_without_duration_mints_nothing [OF n2, of c u2] l2
  show ?thesis by simp
qed

text \<open>
  \<open>remember(true)\<close> and then \<open>login(alice)\<close> sets the remember cookie with the five
  years; after a \<open>logout\<close>, the next \<open>login(alice)\<close> saves no second token and sets no
  cookie.
\<close>

theorem remember_duration_consumed_once_witness:
  "fst (login demo alice (snd (remember demo (JBool True) fresh))) = Inr alice \<and>
   response_cookie (snd (login demo alice (snd (remember demo (JBool True) fresh))))
     ''adonis-remember-token''
     = Some (SetCookie (JStr ''110ec58a-a0f2-4ac4-8393-c866d813b8d1'') (JNum five_years)) \<and>
   rememberTokenDuration (snd (login demo alice (snd (remember demo (JBool True) fresh)))) = JNum 0 \<and>
   saved_tokens (snd (login demo alice (snd (logout demo
       (snd (login demo alice (snd (remember demo (JBool True) fresh))))))))
     = [(alice, JStr ''110ec58a-a0f2-4ac4-8393-c866d813b8d1'')] \<and>
   response_cookie (snd (login demo alice (snd (logout demo
       (snd (login demo alice (snd (remember demo (JBool True) fresh))))))))
     ''adonis-remember-token'' = Some ClearCookie"
proof -
  let ?s0 = "snd (remember demo (JBool True) fresh)"
  have h: "fst (login demo alice ?s0) = Inr alice"
    by (simp add: op_simps demo_simps)
  have c: "response_cookie (snd (login demo alice ?s0)) ''adonis-remember-token''
     = Some (SetCookie (JStr ''110ec58a-a0f2-4ac4-8393-c866d813b8d1'') (JNum five_years))"
    by (simp add: op_simps demo_simps)
  have t: "saved_tokens (snd (login demo alice ?s0))
     = [(alice, JStr ''110ec58a-a0f2-4ac4-8393-c866d813b8d1'')]"
    by (simp add: op_simps demo_simps)
  have k: "remeberTokenKey demo = ''adonis-remember-token''"
    by (simp add: demo_simps)
  from remember_duration_consumed_once [OF h, of alice] h c t k show ?thesis by simp
qed

section \<open>remember\<close>

text \<open>
  C4, as the code has it. \<open>remember(duration)\<close> stores
  \<^item> \<open>ms('5y')\<close>, the five years, for \<open>true\<close> and for \<open>1\<close>;
  \<^item> \<open>ms(duration)\<close> for a string that is not empty (for the empty string \<open>ms\<close> throws
    and nothing is stored);
  \<^item> the number itself for any other number that is not \<open>0\<close> (\<open>NaN\<close> included);
  \<^item> \<open>undefined\<close>, which is no duration, when the argument is absent;

  and each of these replaces whatever duration was pending. For \<open>0\<close> and for \<open>false\<close>
  it stores nothing: the guard is left as it was, and a duration that was pending stays
  pending.
\<close>

theorem remember_table:
  "(d = JBool True \<or> d = JNum 1 \<longrightarrow>
      remember c d s = (Inr (), s\<lparr>rememberTokenDuration := ms c ''5y''\<rparr>)) \<and>
   (d = JStr str \<and> str \<noteq> [] \<longrightarrow>
      remember c d s = (Inr (), s\<lparr>rememberTokenDuration := ms c str\<rparr>)) \<and>
   (d = JStr [] \<longrightarrow> remember c d s = (Inl MsInvalidValue, s)) \<and>
   (d = JNum x \<and> x \<noteq> 0 \<and> x \<noteq> 1 \<longrightarrow>
      remember c d s = (Inr (), s\<lparr>rememberTokenDuration := JNum x\<rparr>)) \<and>
   (d = JNaN \<longrightarrow> remember c d s = (Inr (), s\<lparr>rememberTokenDuration := JNaN\<rparr>)) \<and>
   (d = JUndefined \<longrightarrow>
      remember c d s = (Inr (), s\<lparr>rememberTokenDuration := JUndefined\<rparr>) \<and>
      \<not> truthy (rememberTokenDuration (snd (remember c d s)))) \<and>
   (d = JNum 0 \<or> d = JBool False \<longrightarrow> remember c d s = (Inr (), s))"
  by (auto simp add: remember_def set_ms_def ms_call_def duration_set_def)

text \<open>The table on the concrete scheme, each row on a guard with five years pending or
  on the fresh guard.\<close>

theorem remember_table_witness:
  "rememberTokenDuration (snd (remember demo (JBool True) fresh)) = JNum five_years \<and>
   rememberTokenDuration (snd (remember demo (JNum 1) fresh)) = JNum five_years \<and>
   rememberTokenDuration
     (snd (remember demo (JStr ''2 days'') (snd (remember demo (JBool True) fresh))))
     = JNum 172800000 \<and>
   remember demo (JStr []) (snd (remember demo (JBool True) fresh))
     = (Inl MsInvalidValue, snd (remember demo (JBool True) fresh)) \<and>
   rememberTokenDuration
     (snd (remember demo (JNum 3600000) (snd (remember demo (JBool True) fresh))))
     = JNum 3600000 \<and>
   rememberTokenDuration (snd (remember demo JNaN (snd (remember demo (JBool True) fresh))))
     = JNaN \<and>
   rememberTokenDuration (snd (remember demo JUndefined (snd (remember demo (JBool True) fresh))))
     = JUndefined \<and>
   snd (remember demo (JNum 0) (snd (remember demo (JBool True) fresh)))
     = snd (remember demo (JBool True) fresh) \<and>
   remember demo (JBool False) fresh = (Inr (), fresh)"
proof -
  let ?p = "snd (remember demo (JBool True) fresh)"
  have m: "ms demo ''5y'' = JNum five_years" "ms demo ''2 days'' = JNum 172800000"
    by (simp_all add: demo_def)
  note t = remember_table [where c = demo]
  from t [where d = "JBool True" and s = fresh] t [where d = "JNum 1" and s = fresh]
    t [where d = "JStr ''2 days''" and s = ?p and str = "''2 days''"]
    t [where d = "JStr []" and s = ?p]
    t [where d = "JNum 3600000" and s = ?p and x = 3600000]
    t [where d = JUndefined and s = ?p] t [where d = JNaN and s = ?p]
    t [where d = "JNum 0" and s = ?p]
    t [where d = "JBool False" and s = fresh] m
  show ?thesis by simp
qed

text \<open>
  \<open>0\<close> and \<open>false\<close> do not overwrite: after \<open>remember(true)\<close>, neither
  \<open>remember(false)\<close> nor \<open>remember(0)\<close> takes the five years back, and the login that
  follows sets the remember cookie.
\<close>

theorem remember_false_counterexample:
  "rememberTokenDuration
     (snd (remember demo (JBool False) (snd (remember demo (JBool True) fresh))))
     = JNum five_years \<and>
   rememberTokenDuration
     (snd (remember demo (JNum 0) (snd (remember demo (JBool True) fresh))))
     = JNum five_years \<and>
   response_cookie
     (snd (login demo alice
        (snd (remember demo (JBool False) (snd (remember demo (JBool True) fresh))))))
     ''adonis-remember-token''
     = Some (SetCookie (JStr ''110ec58a-a0f2-4ac4-8393-c866d813b8d1'') (JNum five_years))"
  by (simp add: op_simps demo_simps)

section \<open>check\<close>

text \<open>
  What \<open>check\<close> does on a guard with no user, path by path. With a truthy session
  value it assigns what \<open>findById\<close> answers and returns whether that is a user. Otherwise,
  with a truthy remember cookie, it returns whether \<open>findByRememberToken\<close> answers a
  user; when that user has a primary key value and no duration is pending, the login it
  starts runs to its end at once, and the guard is the one \<open>login\<close> leaves.
\<close>

lemma check_session_path:
  assumes "user s = None" and "truthy (store_get (session s) (sessionKey c))"
  shows "check c s =
     (Inr (findById c (store_get (session s) (sessionKey c)) \<noteq> None),
      s\<lparr>user := findById c (store_get (session s) (sessionKey c))\<rparr>)"
  using assms by (simp add: check_def Let_def)

lemma check_token_path_result:
  assumes "user s = None" and "\<not> truthy (store_get (session s) (sessionKey c))"
    and "truthy (store_get (request_cookie s) (remeberTokenKey c))"
  shows "fst (check c s) =
     Inr (findByRememberToken c (store_get (request_cookie s) (remeberTokenKey c)) \<noteq> None)"
  using assms by (simp add: check_def Let_def split: option.splits)

lemma check_token_path_login:
  assumes "user s = None" and "\<not> truthy (store_get (session s) (sessionKey c))"
    and "truthy (store_get (request_cookie s) (remeberTokenKey c))"
    and "findByRememberToken c (store_get (request_cookie s) (remeberTokenKey c)) = Some u"
    and "truthy (primaryKeyOf c u)" and "\<not> truthy (rememberTokenDuration s)"
  shows "check c s = (Inr True, snd (login c u s)) \<and> fst (login c u s) = Inr u"
proof -
  have b: "login_begin c u s =
     (Settled (Inr u),
      s\<lparr>user := Some u, rememberTokenDuration := JNum 0,
        session := (session s)(sessionKey c \<mapsto> primaryKeyOf c u)\<rparr>)"
    using assms(1,5,6) by (rule login_begin_no_duration)
  have k: "check c s = (Inr True, login_detached c u s)"
    using assms(1-4) by (simp add: check_def Let_def)
  from k b login_detached_settled [OF b] show ?thesis by (simp add: login_def)
qed

text \<open>
  C5. The login that \<open>check\<close> starts on the remember-token path is called as a bare
  statement, \<open>this.login(user)\<close>, where \<open>attempt\<close> and \<open>loginViaId\<close> return the promise
  of \<open>login\<close> to their caller. Two requests show what that costs.
  \<^item> The token of \<open>ghost\<close>, a user without a primary key value: \<open>check\<close> answers \<open>true\<close>
    and leaves \<open>ghost\<close> as the guard's user with no session key written, while \<open>login\<close>
    of \<open>ghost\<close> on the same guard raises \<open>missingUid\<close>.
  \<^item> The token of \<open>alice\<close> after \<open>remember(true)\<close>, over a serializer that saves in a
    store: when the caller of \<open>check\<close> goes on with the answer \<open>true\<close>, the login is
    suspended and the session key is not written, nor the cookie set. An awaited \<open>login\<close>
    on the same guard has written the key when it returns, and so has the suspended one
    once it has gone on. Over a serializer that saves at once the key is written in time.
\<close>

theorem check_login_not_awaited:
  "fst (check demo (token_request ''tok-ghost'')) = Inr True \<and>
   user (snd (check demo (token_request ''tok-ghost''))) = Some ghost \<and>
   session (snd (check demo (token_request ''tok-ghost''))) ''adonis-auth'' = None \<and>
   fst (login demo ghost (token_request ''tok-ghost'')) = Inl MissingUid \<and>
   fst (check demo (snd (remember demo (JBool True) (token_request ''tok-alice'')))) = Inr True \<and>
   session (snd (check demo (snd (remember demo (JBool True) (token_request ''tok-alice'')))))
     ''adonis-auth'' = None \<and>
   response_cookie
     (snd (check demo (snd (remember demo (JBool True) (token_request ''tok-alice'')))))
     ''adonis-remember-token'' = None \<and>
   detached (snd (check demo (snd (remember demo (JBool True) (token_request ''tok-alice'')))))
     = [(alice, JStr ''110ec58a-a0f2-4ac4-8393-c866d813b8d1'', JNum five_years)] \<and>
   session (snd (login demo alice (snd (remember demo (JBool True) (token_request ''tok-alice'')))))
     ''adonis-auth'' = Some (JNum 1) \<and>
   session
     (resume_detached demo
        (snd (check demo (snd (remember demo (JBool True) (token_request ''tok-alice''))))))
     ''adonis-auth'' = Some (JNum 1) \<and>
   session
     (snd (check demo_at_once
        (snd (remember demo_at_once (JBool True) (token_request ''tok-alice'')))))
     ''adonis-auth'' = Some (JNum 1)"
  by (simp add: op_simps demo_simps Let_def)

section \<open>logout\<close>

text \<open>
  C6, as the code has it. On every guard \<open>logout\<close> raises nothing, sets \<open>this.user\<close> to
  \<open>null\<close>, leaves \<open>viaRemember\<close> falsy, forgets the session key and clears the remember
  cookie on the response. It is idempotent: a second \<open>logout\<close> returns the guard the
  first one left. On a guard that has no user for any other reason it still forgets the
  session key and still asks the response to clear the cookie, and changes nothing else:
  such a guard is left as it was only where the session key was absent and the cookie
  already cleared.
\<close>

theorem logout_clears:
  "fst (logout c s) = Inr () \<and>
   user (snd (logout c s)) = None \<and>
   \<not> truthy (viaRemember (snd (logout c s))) \<and>
   session (snd (logout c s)) (sessionKey c) = None \<and>
   response_cookie (snd (logout c s)) (remeberTokenKey c) = Some ClearCookie \<and>
   logout c (snd (logout c s)) = logout c s \<and>
   (user s = None \<longrightarrow>
      snd (logout c s) =
        s\<lparr>session := (session s)(sessionKey c := None),
          response_cookie := (response_cookie s)(remeberTokenKey c \<mapsto> ClearCookie)\<rparr>) \<and>
   (user s = None \<and> session s (sessionKey c) = None \<and>
    response_cookie s (remeberTokenKey c) = Some ClearCookie \<longrightarrow> snd (logout c s) = s)"
proof -
  have a: "fst (logout c s) = Inr () \<and> user (snd (logout c s)) = None \<and>
     \<not> truthy (viaRemember (snd (logout c s))) \<and>
     session (snd (logout c s)) (sessionKey c) = None \<and>
     response_cookie (snd (logout c s)) (remeberTokenKey c) = Some ClearCookie \<and>
     logout c (snd (logout c s)) = logout c s"
    by (simp add: logout_def removeSession_def viaRemember_def)
  have b: "user s = None \<longrightarrow>
      snd (logout c s) =
        s\<lparr>session := (session s)(sessionKey c := None),
          response_cookie := (response_cookie s)(remeberTokenKey c \<mapsto> ClearCookie)\<rparr>"
    by (cases s) (simp add: logout_def removeSession_def)
  have d: "user s = None \<and> session s (sessionKey c) = None \<and>
    response_cookie s (remeberTokenKey c) = Some ClearCookie \<longrightarrow> snd (logout c s) = s"
    by (cases s) (auto simp add: logout_def removeSession_def fun_upd_idem)
  from a b d show ?thesis by blast
qed

text \<open>A logout after \<open>alice\<close> has logged in, and two in a row on the fresh guard.\<close>

theorem logout_clears_witness:
  "user (snd (logout demo (snd (login demo alice fresh)))) = None \<and>
   session (snd (logout demo (snd (login demo alice fresh)))) ''adonis-auth'' = None \<and>
   response_cookie (snd (logout demo (snd (login demo alice fresh)))) ''adonis-remember-token''
     = Some ClearCookie \<and>
   logout demo (snd (logout demo fresh)) = logout demo fresh \<and>
   snd (logout demo (snd (logout demo fresh))) = snd (logout demo fresh)"
proof -
  have k: "sessionKey demo = ''adonis-auth''" "remeberTokenKey demo = ''adonis-remember-token''"
    by (simp_all add: demo_simps)
  have u: "user (snd (logout demo fresh)) = None"
    "session (snd (logout demo fresh)) ''adonis-auth'' = None"
    "response_cookie (snd (logout demo fresh)) ''adonis-remember-token'' = Some ClearCookie"
    by (simp_all add: op_simps demo_simps)
  from logout_clears [of demo "snd (login demo alice fresh)"] logout_clears [of demo fresh]
    logout_clears [of demo "snd (logout demo fresh)"] k u
  show ?thesis by simp
qed

text \<open>
  A guard with no user is not always left as it was. On the fresh guard \<open>logout\<close> puts
  the instruction to clear the cookie on the response; on the guard of a request that
  carries a session value, still without a user because \<open>check\<close> has not run, it
  forgets that value.
\<close>

theorem logout_anonymous_counterexample:
  "user fresh = None \<and>
   response_cookie fresh ''adonis-remember-token'' = None \<and>
   response_cookie (snd (logout demo fresh)) ''adonis-remember-token'' = Some ClearCookie \<and>
   snd (logout demo fresh) \<noteq> fresh \<and>
   user (session_request (JNum 1)) = None \<and>
   session (session_request (JNum 1)) ''adonis-auth'' = Some (JNum 1) \<and>
   session (snd (logout demo (session_request (JNum 1)))) ''adonis-auth'' = None \<and>
   snd (logout demo (session_request (JNum 1))) \<noteq> session_request (JNum 1)"
proof -
  have a: "user fresh = None" "response_cookie fresh ''adonis-remember-token'' = None"
    "response_cookie (snd (logout demo fresh)) ''adonis-remember-token'' = Some ClearCookie"
    by (simp_all add: op_simps demo_simps)
  have b: "user (session_request (JNum 1)) = None"
    "session (session_request (JNum 1)) ''adonis-auth'' = Some (JNum 1)"
    "session (snd (logout demo (session_request (JNum 1)))) ''adonis-auth'' = None"
    by (simp_all add: op_simps demo_simps)
  from a(2,3) have a': "snd (logout demo fresh) \<noteq> fresh" by auto
  from b(2,3) have b': "snd (logout demo (session_request (JNum 1))) \<noteq> session_request (JNum 1)"
    by auto
  from a a' b b' show ?thesis by simp
qed

section \<open>validate\<close>

text \<open>
  C7. For every uid and password: when \<open>findByUid\<close> finds nobody, \<open>validate\<close> raises
  \<open>UserNotFoundException\<close> with the message \<open>Cannot find user with <key> as <uid>\<close>,
  which holds the name of the lookup key and the uid; when the user is found and the
  password is not verified, it raises \<open>PasswordMisMatchException\<close>; otherwise it returns
  the user when \<open>returnUser\<close> is truthy and the boolean \<open>true\<close> when it is not. It never
  returns \<open>false\<close>, and it leaves the guard as it was.
\<close>

theorem validate_outcomes:
  "(findByUid c uid = None \<longrightarrow>
      validate c uid password returnUser s =
        (Inl (UserNotFoundException
                (''Cannot find user with '' @ config_uid c @ '' as '' @ uid)), s)) \<and>
   (findByUid c uid = Some usr \<and> \<not> validateCredentails c usr password \<longrightarrow>
      validate c uid password returnUser s =
        (Inl (PasswordMisMatchException ''Cannot verify user password''), s)) \<and>
   (findByUid c uid = Some usr \<and> validateCredentails c usr password \<and> truthy returnUser \<longrightarrow>
      validate c uid password returnUser s = (Inr (ReturnedUser usr), s)) \<and>
   (findByUid c uid = Some usr \<and> validateCredentails c usr password \<and> \<not> truthy returnUser \<longrightarrow>
      validate c uid password returnUser s = (Inr (ReturnedBool True), s)) \<and>
   fst (validate c uid password returnUser s) \<noteq> Inr (ReturnedBool False) \<and>
   snd (validate c uid password returnUser s) = s"
  by (simp add: validate_def split: option.splits)

theorem validate_outcomes_witness:
  "validate demo ''bob'' ''pw'' (JBool True) fresh
     = (Inl (UserNotFoundException ''Cannot find user with email as bob''), fresh) \<and>
   validate demo ''alice'' ''wrong'' (JBool True) fresh
     = (Inl (PasswordMisMatchException ''Cannot verify user password''), fresh) \<and>
   validate demo ''alice'' ''correct-pw'' (JBool True) fresh = (Inr (ReturnedUser alice), fresh) \<and>
   validate demo ''alice'' ''correct-pw'' JUndefined fresh = (Inr (ReturnedBool True), fresh)"
proof -
  have f: "findByUid demo ''bob'' = None" "findByUid demo ''alice'' = Some alice"
    by (simp_all add: demo_def)
  have v: "\<not> validateCredentails demo alice ''wrong''"
    "validateCredentails demo alice ''correct-pw''"
    by (simp_all add: demo_def alice_def)
  have u: "config_uid demo = ''email''" by (simp add: demo_def)
  note t = validate_outcomes [where c = demo and s = fresh and usr = alice]
  from t [where uid = "''bob''" and password = "''pw''" and returnUser = "JBool True"]
    t [where uid = "''alice''" and password = "''wrong''" and returnUser = "JBool True"]
    t [where uid = "''alice''" and password = "''correct-pw''" and returnUser = "JBool True"]
    t [where uid = "''alice''" and password = "''correct-pw''" and returnUser = JUndefined]
    f v u
  show ?thesis by simp
qed

section \<open>attempt\<close>

text \<open>
  C8. \<open>attempt(uid, password)\<close> is \<open>validate(uid, password, true)\<close> followed by \<open>login\<close>
  of the user it returned: when \<open>validate\<close> returns a user, \<open>attempt\<close> is \<open>login\<close> of that
  user (the same result, the same guard, hence the same value under the session key and
  the same exception when \<open>login\<close> raises one); when \<open>validate\<close> raises, \<open>attempt\<close> raises
  the same exception and leaves the same guard. Called with \<open>true\<close>, \<open>validate\<close> either
  raises or returns a user, so the two cases are all there are.
\<close>

theorem attempt_is_validate_then_login:
  "(validate c uid password (JBool True) s = (Inr (ReturnedUser usr), s') \<longrightarrow>
      attempt c uid password s = login c usr s') \<and>
   (validate c uid password (JBool True) s = (Inl e, s') \<longrightarrow>
      attempt c uid password s = (Inl e, s')) \<and>
   (findByUid c uid = Some usr \<and> validateCredentails c usr password \<longrightarrow>
      attempt c uid password s = login c usr s \<and>
      fst (attempt c uid password s) = fst (login c usr s) \<and>
      session (snd (attempt c uid password s)) (sessionKey c)
        = session (snd (login c usr s)) (sessionKey c)) \<and>
   (validate c uid password (JBool True) s = (Inr (ReturnedUser usr), s') \<and>
    fst (login c usr s') = Inl e \<longrightarrow> fst (attempt c uid password s) = Inl e) \<and>
   ((\<exists>x. fst (validate c uid password (JBool True) s) = Inl x) \<or>
    (\<exists>y. fst (validate c uid password (JBool True) s) = Inr (ReturnedUser y)))"
  by (auto simp add: attempt_def validate_def split: option.splits)

theorem attempt_is_validate_then_login_witness:
  "attempt demo ''alice'' ''correct-pw'' fresh = login demo alice fresh \<and>
   fst (attempt demo ''alice'' ''correct-pw'' fresh) = Inr alice \<and>
   session (snd (attempt demo ''alice'' ''correct-pw'' fresh)) ''adonis-auth'' = Some (JNum 1) \<and>
   attempt demo ''alice'' ''wrong'' fresh
     = (Inl (PasswordMisMatchException ''Cannot verify user password''), fresh) \<and>
   fst (attempt demo ''ghost'' ''boo'' fresh) = Inl MissingUid"
proof -
  have f: "findByUid demo ''alice'' = Some alice" "validateCredentails demo alice ''correct-pw''"
    by (simp_all add: demo_simps)
  have l: "fst (login demo alice fresh) = Inr alice"
    "session (snd (login demo alice fresh)) ''adonis-auth'' = Some (JNum 1)"
    by (simp_all add: op_simps demo_simps)
  have w: "validate demo ''alice'' ''wrong'' (JBool True) fresh
     = (Inl (PasswordMisMatchException ''Cannot verify user password''), fresh)"
    by (simp add: validate_def demo_simps)
  have g: "validate demo ''ghost'' ''boo'' (JBool True) fresh = (Inr (ReturnedUser ghost), fresh)"
    "fst (login demo ghost fresh) = Inl MissingUid"
    by (simp_all add: op_simps demo_simps)
  note t = attempt_is_validate_then_login [where c = demo and s = fresh]
  from t [where uid = "''alice''" and password = "''correct-pw''" and usr = alice]
    t [where uid = "''alice''" and password = "''wrong''" and s' = fresh
         and e = "PasswordMisMatchException ''Cannot verify user password''"]
    t [where uid = "''ghost''" and password = "''boo''" and usr = ghost and s' = fresh
         and e = MissingUid]
    f l w g
  show ?thesis by (simp add: demo_simps)
qed

section \<open>check and getUser on a guard that cannot be restored\<close>

text \<open>
  C9, as the code has it. \<open>check\<close> always returns a boolean: it raises no exception.
  On a guard with no user, when neither the session value nor the remember cookie is
  present (or truthy), \<open>check\<close> returns \<open>false\<close> and \<open>getUser\<close> returns \<open>null\<close>, and the
  guard is as it was; when the session value is truthy and \<open>findById\<close> finds nobody for
  it, \<open>check\<close> again returns \<open>false\<close> and \<open>getUser\<close> \<open>null\<close>, with the guard as it was.
  On a guard that holds a user, \<open>check\<close> returns \<open>true\<close> and \<open>getUser\<close> that user,
  whatever the session and the cookies hold, and the guard is as it was.
\<close>

theorem check_never_raises:
  "(\<exists>b. fst (check c s) = Inr b) \<and>
   (user s = None \<and> \<not> truthy (store_get (session s) (sessionKey c)) \<and>
    \<not> truthy (store_get (request_cookie s) (remeberTokenKey c)) \<longrightarrow>
      check c s = (Inr False, s) \<and> getUser c s = (Inr None, s)) \<and>
   (user s = None \<and> truthy (store_get (session s) (sessionKey c)) \<and>
    findById c (store_get (session s) (sessionKey c)) = None \<longrightarrow>
      check c s = (Inr False, s) \<and> getUser c s = (Inr None, s)) \<and>
   (user s = Some u \<longrightarrow> check c s = (Inr True, s) \<and> getUser c s = (Inr (Some u), s))"
  by (auto simp add: check_def getUser_def Let_def split: option.splits)

theorem check_never_raises_witness:
  "check demo fresh = (Inr False, fresh) \<and> getUser demo fresh = (Inr None, fresh) \<and>
   check demo (session_request (JNum 7)) = (Inr False, session_request (JNum 7)) \<and>
   getUser demo (session_request (JNum 7)) = (Inr None, session_request (JNum 7)) \<and>
   check demo (snd (login demo alice fresh)) = (Inr True, snd (login demo alice fresh)) \<and>
   getUser demo (snd (login demo alice fresh)) = (Inr (Some alice), snd (login demo alice fresh))"
proof -
  let ?a = "session_request (JNum 7)"
  have k: "sessionKey demo = ''adonis-auth''" "remeberTokenKey demo = ''adonis-remember-token''"
    by (simp_all add: demo_simps)
  have f: "user fresh = None" "store_get (session fresh) ''adonis-auth'' = JUndefined"
    "store_get (request_cookie fresh) ''adonis-remember-token'' = JUndefined"
    by (simp_all add: demo_simps)
  have a: "user ?a = None" "store_get (session ?a) ''adonis-auth'' = JNum 7"
    "findById demo (JNum 7) = None"
    by (simp_all add: demo_simps)
  have l: "user (snd (login demo alice fresh)) = Some alice"
    by (simp add: op_simps demo_simps)
  from check_never_raises [of demo fresh] check_never_raises [of demo ?a]
    check_never_raises [of demo "snd (login demo alice fresh)" alice] k f a l
  show ?thesis by simp
qed

text \<open>
  Neither key present does not make \<open>check\<close> return \<open>false\<close> when the guard holds a
  user. After the login of \<open>ghost\<close> on the fresh guard has failed, the guard holds
  \<open>ghost\<close>, the session has no key and the request no cookie: \<open>check\<close> returns \<open>true\<close>
  and \<open>getUser\<close> returns \<open>ghost\<close>.
\<close>

theorem check_without_keys_counterexample:
  "session (snd (login demo ghost fresh)) ''adonis-auth'' = None \<and>
   request_cookie (snd (login demo ghost fresh)) ''adonis-remember-token'' = None \<and>
   fst (check demo (snd (login demo ghost fresh))) = Inr True \<and>
   fst (getUser demo (snd (login demo ghost fresh))) = Inr (Some ghost)"
  by (simp add: op_simps demo_simps)

section \<open>The login that check does not await\<close>

text \<open>
  C10. On a guard with no user and no truthy session value, when the remember cookie
  resolves to a user whose primary key value is \<open>null\<close> or absent: \<open>check\<close> returns
  \<open>true\<close> and leaves that user as the guard's user, \<open>getUser\<close> returns that user, and
  the \<open>missingUid\<close> that \<open>login\<close> raises for the same user on the same guard reaches
  nobody.
\<close>

theorem check_swallows_missing_uid:
  assumes "user s = None"
    and "\<not> truthy (store_get (session s) (sessionKey c))"
    and "truthy (store_get (request_cookie s) (remeberTokenKey c))"
    and "findByRememberToken c (store_get (request_cookie s) (remeberTokenKey c)) = Some u"
    and "primaryKeyOf c u = JNull \<or> primaryKeyOf c u = JUndefined"
  shows "check c s = (Inr True, s\<lparr>user := Some u\<rparr>) \<and>
         login c u s = (Inl MissingUid, s\<lparr>user := Some u\<rparr>) \<and>
         getUser c s = (Inr (Some u), s\<lparr>user := Some u\<rparr>)"
proof -
  from assms(5) have n: "\<not> truthy (primaryKeyOf c u)" by auto
  have b: "login_begin c u s = (Settled (Inl MissingUid), s\<lparr>user := Some u\<rparr>)"
    using assms(1) n by (rule login_begin_missing)
  have k: "check c s = (Inr True, login_detached c u s)"
    using assms(1-4) by (simp add: check_def Let_def)
  from k b login_detached_settled [OF b] show ?thesis
    by (simp add: login_def getUser_def)
qed

theorem check_swallows_missing_uid_witness:
  "check demo (token_request ''tok-ghost'')
     = (Inr True, (token_request ''tok-ghost'')\<lparr>user := Some ghost\<rparr>) \<and>
   login demo ghost (token_request ''tok-ghost'')
     = (Inl MissingUid, (token_request ''tok-ghost'')\<lparr>user := Some ghost\<rparr>)"
proof -
  let ?g = "token_request ''tok-ghost''"
  have a: "user ?g = None" by (simp add: demo_simps)
  have b: "\<not> truthy (store_get (session ?g) (sessionKey demo))" by (simp add: demo_simps)
  have c: "truthy (store_get (request_cookie ?g) (remeberTokenKey demo))"
    by (simp add: demo_simps)
  have d: "findByRememberToken demo (store_get (request_cookie ?g) (remeberTokenKey demo))
             = Some ghost"
    by (simp add: demo_simps)
  have e: "primaryKeyOf demo ghost = JNull" by (simp add: demo_simps)
  from check_swallows_missing_uid [OF a b c d disjI1 [OF e]] show ?thesis by simp
qed

end
